theory Spec2Isabelle
  imports Main "HOL-Library.Word"
begin

unbundle bit_operations_syntax

section \<open>Python values\<close>

text \<open>
  The webhook payloads are the result of parsing JSON: \<open>None\<close>, booleans, integers,
  floats, strings, lists and dictionaries with string keys. A string is the list of its
  bytes (UTF-8), a dictionary is an association list in which the first binding of a key
  is the one that counts. A float is represented by what the code can observe of it:
  the result of \<open>int(x)\<close> (which fails for \<open>nan\<close> and the infinities), its truth
  value and its \<open>str(x)\<close>.
\<close>

datatype pyval =
    PNone
  | PBool bool
  | PInt int
  | PFloat (float_int: "int option") (float_truthy: bool) (float_repr: string)
  | PStr string
  | PList "pyval list"
  | PDict "(string \<times> pyval) list"

datatype error =
    AttributeError
  | TypeError
  | ValueError
  | OverflowError
  | ValidationError
  | MultipleResultsFound

text \<open>Truth value of an object, as \<open>if x\<close>, \<open>x or y\<close> and \<open>not x\<close> test it.\<close>

fun truthy :: "pyval \<Rightarrow> bool" where
  "truthy PNone = False"
| "truthy (PBool b) = b"
| "truthy (PInt i) = (i \<noteq> 0)"
| "truthy (PFloat t z s) = z"
| "truthy (PStr s) = (s \<noteq> [])"
| "truthy (PList xs) = (xs \<noteq> [])"
| "truthy (PDict kvs) = (kvs \<noteq> [])"

text \<open>\<open>a or b\<close>: the first operand when it is truthy, else the second.\<close>

definition py_or :: "pyval \<Rightarrow> pyval \<Rightarrow> pyval" where
  "py_or a b = (if truthy a then a else b)"

text \<open>
  \<open>d.get(k)\<close> and \<open>d.get(k, default)\<close>. Only a dictionary has the method: on every
  other value the attribute lookup raises \<open>AttributeError\<close>.
\<close>

fun py_get_default :: "pyval \<Rightarrow> string \<Rightarrow> pyval \<Rightarrow> error + pyval" where
  "py_get_default (PDict kvs) k d = Inr (case map_of kvs k of None \<Rightarrow> d | Some v \<Rightarrow> v)"
| "py_get_default _ k d = Inl AttributeError"

definition py_get :: "pyval \<Rightarrow> string \<Rightarrow> error + pyval" where
  "py_get v k = py_get_default v k PNone"

subsection \<open>Strings\<close>

text \<open>\<open>sep.join(xs)\<close> for a list of strings.\<close>

fun join :: "string \<Rightarrow> string list \<Rightarrow> string" where
  "join sep [] = []"
| "join sep [x] = x"
| "join sep (x # y # ys) = x @ sep @ join sep (y # ys)"

text \<open>\<open>s.replace(".", "_")\<close>.\<close>

definition replace_dots :: "string \<Rightarrow> string" where
  "replace_dots s = map (\<lambda>c. if c = CHR ''.'' then CHR ''_'' else c) s"

text \<open>
  \<open>s.strip()\<close> removes leading and trailing whitespace. The ASCII whitespace of a
  Python string is tab, line feed, vertical tab, form feed, carriage return, the four
  separators 0x1C to 0x1F and the space.
\<close>

definition is_space :: "char \<Rightarrow> bool" where
  "is_space c = (of_char c \<in> {9::nat, 10, 11, 12, 13, 28, 29, 30, 31, 32})"

definition strip :: "string \<Rightarrow> string" where
  "strip s = rev (dropWhile is_space (rev (dropWhile is_space s)))"

text \<open>\<open>needle in s\<close> for two strings: \<open>needle\<close> occurs as a contiguous part of \<open>s\<close>.\<close>

fun contains :: "string \<Rightarrow> string \<Rightarrow> bool" where
  "contains needle [] = (needle = [])"
| "contains needle (c # cs) = (take (length needle) (c # cs) = needle \<or> contains needle cs)"

text \<open>ASCII lower case, as \<open>s.lower()\<close> gives on ASCII text.\<close>

definition lower_char :: "char \<Rightarrow> char" where
  "lower_char c =
     (let n = (of_char c :: nat) in if 65 \<le> n \<and> n \<le> 90 then char_of (n + 32) else c)"

definition lower :: "string \<Rightarrow> string" where
  "lower s = map lower_char s"

text \<open>ASCII upper case, as \<open>s.upper()\<close> gives on ASCII text.\<close>

definition upper_char :: "char \<Rightarrow> char" where
  "upper_char c =
     (let n = (of_char c :: nat) in if 97 \<le> n \<and> n \<le> 122 then char_of (n - 32) else c)"

definition upper :: "string \<Rightarrow> string" where
  "upper s = map upper_char s"

subsection \<open>\<open>str\<close> and \<open>repr\<close>\<close>

definition hexdigit :: "nat \<Rightarrow> char" where
  "hexdigit n = ''0123456789abcdef'' ! (n mod 16)"

fun dec_nat :: "nat \<Rightarrow> string" where
  "dec_nat n = (if n < 10 then [hexdigit n] else dec_nat (n div 10) @ [hexdigit (n mod 10)])"

declare dec_nat.simps [simp del]

definition dec_int :: "int \<Rightarrow> string" where
  "dec_int i = (if i < 0 then CHR ''-'' # dec_nat (nat (- i)) else dec_nat (nat i))"

text \<open>
  \<open>repr\<close> of a string: in single quotes, unless the string has a single quote and no
  double quote; the backslash and the chosen quote are escaped, tab, line feed and
  carriage return are written \<open>\t\<close>, \<open>\n\<close>, \<open>\r\<close>, the other control characters
  \<open>\xNN\<close>. Bytes above 0x7F stand for printable characters and are kept.
\<close>

definition repr_char :: "char \<Rightarrow> char \<Rightarrow> string" where
  "repr_char q c =
     (let n = (of_char c :: nat) in
      if c = q \<or> c = CHR 0x5C then [CHR 0x5C, c]
      else if n = 9 then [CHR 0x5C, CHR ''t'']
      else if n = 10 then [CHR 0x5C, CHR ''n'']
      else if n = 13 then [CHR 0x5C, CHR ''r'']
      else if n < 32 \<or> n = 127 then [CHR 0x5C, CHR ''x'', hexdigit (n div 16), hexdigit n]
      else [c])"

definition repr_str :: "string \<Rightarrow> string" where
  "repr_str s =
     (let q = (if CHR 0x27 \<in> set s \<and> CHR 0x22 \<notin> set s then CHR 0x22 else CHR 0x27)
      in q # concat (map (repr_char q) s) @ [q])"

fun py_repr :: "pyval \<Rightarrow> string" and py_repr_item :: "string \<times> pyval \<Rightarrow> string" where
  "py_repr PNone = ''None''"
| "py_repr (PBool b) = (if b then ''True'' else ''False'')"
| "py_repr (PInt i) = dec_int i"
| "py_repr (PFloat t z s) = s"
| "py_repr (PStr s) = repr_str s"
| "py_repr (PList xs) = ''['' @ join '', '' (map py_repr xs) @ '']''"
| "py_repr (PDict kvs) = ''{'' @ join '', '' (map py_repr_item kvs) @ ''}''"
| "py_repr_item (k, v) = repr_str k @ '': '' @ py_repr v"

text \<open>\<open>str(x)\<close>: a string is itself, every other value is its \<open>repr\<close>.\<close>

fun py_str :: "pyval \<Rightarrow> string" where
  "py_str (PStr s) = s"
| "py_str v = py_repr v"

subsection \<open>\<open>int\<close>\<close>

text \<open>
  \<open>int(s)\<close> for a string: surrounding whitespace is dropped, then an optional sign and
  decimal digits, where single underscores may separate digits. Anything else raises
  \<open>ValueError\<close>. (The interpreter's limit on the number of digits is not modelled; a
  number that long is outside the range of a datetime anyway.)
\<close>

definition is_digit :: "char \<Rightarrow> bool" where
  "is_digit c = (48 \<le> (of_char c :: nat) \<and> (of_char c :: nat) \<le> 57)"

definition digit_val :: "char \<Rightarrow> nat" where
  "digit_val c = of_char c - 48"

text \<open>
  The digits after the first one, with the value read so far; the flag says that the
  previous character was an underscore, after which a digit must follow.
\<close>

fun parse_digits :: "nat \<Rightarrow> bool \<Rightarrow> string \<Rightarrow> nat option" where
  "parse_digits acc after_us [] = (if after_us then None else Some acc)"
| "parse_digits acc after_us (c # cs) =
     (if is_digit c then parse_digits (acc * 10 + digit_val c) False cs
      else if c = CHR ''_'' \<and> \<not> after_us then parse_digits acc True cs
      else None)"

definition parse_nat :: "string \<Rightarrow> nat option" where
  "parse_nat s =
     (case s of [] \<Rightarrow> None
      | c # cs \<Rightarrow> if is_digit c then parse_digits (digit_val c) False cs else None)"

definition int_of_str :: "string \<Rightarrow> error + int" where
  "int_of_str s =
     (case strip s of
        [] \<Rightarrow> Inl ValueError
      | c # cs \<Rightarrow>
          if c = CHR ''-'' then
            (case parse_nat cs of None \<Rightarrow> Inl ValueError | Some n \<Rightarrow> Inr (- int n))
          else if c = CHR ''+'' then
            (case parse_nat cs of None \<Rightarrow> Inl ValueError | Some n \<Rightarrow> Inr (int n))
          else
            (case parse_nat (c # cs) of None \<Rightarrow> Inl ValueError | Some n \<Rightarrow> Inr (int n)))"

fun py_int :: "pyval \<Rightarrow> error + int" where
  "py_int PNone = Inl TypeError"
| "py_int (PBool b) = Inr (if b then 1 else 0)"
| "py_int (PInt i) = Inr i"
| "py_int (PFloat t z s) = (case t of None \<Rightarrow> Inl ValueError | Some i \<Rightarrow> Inr i)"
| "py_int (PStr s) = int_of_str s"
| "py_int (PList xs) = Inl TypeError"
| "py_int (PDict kvs) = Inl TypeError"

section \<open>SHA-1\<close>

text \<open>
  \<open>hashlib.sha1(data).hexdigest()\<close>, after FIPS 180: the message is padded to a
  multiple of 64 bytes, each block of sixteen big-endian 32-bit words is expanded to
  eighty words and run through eighty rounds, and the five state words are written as
  forty lowercase hexadecimal digits.
\<close>

type_synonym w32 = "32 word"

definition sha1_pad :: "nat list \<Rightarrow> nat list" where
  "sha1_pad bs =
     (let n = length bs;
          k = (119 - n mod 64) mod 64;
          bits = 8 * n
      in bs @ [128] @ replicate k 0
            @ map (\<lambda>i. (bits div 256 ^ i) mod 256) [7, 6, 5, 4, 3, 2, 1, 0])"

fun be_words :: "nat list \<Rightarrow> w32 list" where
  "be_words (a # b # c # d # bs) =
     word_of_nat (((a * 256 + b) * 256 + c) * 256 + d) # be_words bs"
| "be_words _ = []"

function chunks16 :: "w32 list \<Rightarrow> w32 list list" where
  "chunks16 ws = (if ws = [] then [] else take 16 ws # chunks16 (drop 16 ws))"
  by pat_completeness auto
termination
  by (relation "measure length") auto

declare chunks16.simps [simp del]

definition rotl :: "nat \<Rightarrow> w32 \<Rightarrow> w32" where
  "rotl n w = push_bit n w OR drop_bit (32 - n) w"

text \<open>The message schedule: word \<open>t\<close> is built from the words 3, 8, 14 and 16 before it.\<close>

fun expand :: "nat \<Rightarrow> w32 list \<Rightarrow> w32 list" where
  "expand 0 ws = ws"
| "expand (Suc n) ws =
     (let t = length ws
      in expand n (ws @ [rotl 1 (ws ! (t - 3) XOR ws ! (t - 8) XOR ws ! (t - 14) XOR ws ! (t - 16))]))"

type_synonym sha1_state = "w32 \<times> w32 \<times> w32 \<times> w32 \<times> w32"

definition sha1_f :: "nat \<Rightarrow> w32 \<Rightarrow> w32 \<Rightarrow> w32 \<Rightarrow> w32" where
  "sha1_f t b c d =
     (if t < 20 then (b AND c) OR (NOT b AND d)
      else if t < 40 then b XOR c XOR d
      else if t < 60 then (b AND c) OR (b AND d) OR (c AND d)
      else b XOR c XOR d)"

definition sha1_k :: "nat \<Rightarrow> w32" where
  "sha1_k t =
     (if t < 20 then 0x5A827999
      else if t < 40 then 0x6ED9EBA1
      else if t < 60 then 0x8F1BBCDC
      else 0xCA62C1D6)"

fun sha1_round :: "sha1_state \<Rightarrow> nat \<times> w32 \<Rightarrow> sha1_state" where
  "sha1_round (a, b, c, d, e) (t, w) =
     (rotl 5 a + sha1_f t b c d + e + sha1_k t + w, a, rotl 30 b, c, d)"

fun sha1_block :: "sha1_state \<Rightarrow> w32 list \<Rightarrow> sha1_state" where
  "sha1_block (h0, h1, h2, h3, h4) block =
     (case foldl sha1_round (h0, h1, h2, h3, h4) (zip [0..<80] (expand 64 block)) of
        (a, b, c, d, e) \<Rightarrow> (h0 + a, h1 + b, h2 + c, h3 + d, h4 + e))"

definition sha1_init :: sha1_state where
  "sha1_init = (0x67452301, 0xEFCDAB89, 0x98BADCFE, 0x10325476, 0xC3D2E1F0)"

definition hex32 :: "w32 \<Rightarrow> string" where
  "hex32 w = map (\<lambda>i. hexdigit (unat w div 16 ^ i)) [7, 6, 5, 4, 3, 2, 1, 0]"

definition sha1_hexdigest :: "string \<Rightarrow> string" where
  "sha1_hexdigest s =
     (case foldl sha1_block sha1_init (chunks16 (be_words (sha1_pad (map of_char s)))) of
        (h0, h1, h2, h3, h4) \<Rightarrow> hex32 h0 @ hex32 h1 @ hex32 h2 @ hex32 h3 @ hex32 h4)"

section \<open>Normalizers\<close>

text \<open>
  A datetime is the number of microseconds since the Unix epoch, in UTC. The reading of
  the clock, \<open>datetime.now(timezone.utc)\<close>, is a parameter \<open>now\<close> of every function
  that reads it. The arithmetic on datetimes is exact: the rounding of the floating-point
  division in \<open>int(ts) / 1000\<close> and in \<open>timestamp()\<close> is not modelled.
\<close>

type_synonym instant = int

text \<open>
  The timestamps \<open>datetime.fromtimestamp\<close> accepts, in milliseconds: from the start of
  year 1 to the end of year 9999. Outside, it raises, and \<open>_ts_to_dt\<close> catches it.
\<close>

definition MIN_TS_MS :: int where
  "MIN_TS_MS = - 62135596800000"

definition MAX_TS_MS :: int where
  "MAX_TS_MS = 253402300799999"

text \<open>
  \<open>_ts_to_dt\<close>: the millisecond timestamp as a datetime; on any exception, of \<open>int\<close>
  or of \<open>fromtimestamp\<close>, the current time.
\<close>

definition ts_to_dt :: "instant \<Rightarrow> pyval \<Rightarrow> instant" where
  "ts_to_dt now ts =
     (case py_int ts of
        Inl e \<Rightarrow> now
      | Inr ms \<Rightarrow> if MIN_TS_MS \<le> ms \<and> ms \<le> MAX_TS_MS then ms * 1000 else now)"

text \<open>\<open>int(occurred_at.timestamp())\<close>: whole seconds since the epoch, truncated towards zero.\<close>

definition epoch_seconds :: "instant \<Rightarrow> int" where
  "epoch_seconds t = (if t < 0 then - ((- t) div 1000000) else t div 1000000)"

text \<open>
  \<open>_dedup_id\<close>: the truthy parts, each through \<open>str\<close>, joined with \<open>-\<close> after the
  prefix; the first 24 characters of the SHA-1 hex digest of that text.
\<close>

definition dedup_raw :: "string \<Rightarrow> pyval list \<Rightarrow> string" where
  "dedup_raw prefix parts = prefix @ ''-'' @ join ''-'' (map py_str (filter truthy parts))"

definition dedup_id :: "string \<Rightarrow> pyval list \<Rightarrow> string" where
  "dedup_id prefix parts = take 24 (sha1_hexdigest (dedup_raw prefix parts))"

text \<open>The dictionary a normalizer returns: one field per key.\<close>

record event =
  event_id :: string
  source :: string
  event_type :: string
  raw_event_type :: pyval
  user_id :: pyval
  user_name :: pyval
  location :: pyval
  action :: pyval
  metadata_json :: pyval
  occurred_at :: instant

text \<open>Sequencing of calls that may raise: the first exception ends the function.\<close>

definition sbind :: "error + 'a \<Rightarrow> ('a \<Rightarrow> error + 'b) \<Rightarrow> error + 'b" where
  "sbind m f = (case m of Inl e \<Rightarrow> Inl e | Inr x \<Rightarrow> f x)"

text \<open>\<open>a or b\<close> where both operands may raise: \<open>b\<close> is evaluated only when \<open>a\<close> is falsy.\<close>

definition or_else :: "error + pyval \<Rightarrow> error + pyval \<Rightarrow> error + pyval" where
  "or_else a b = (case a of Inl e \<Rightarrow> Inl e | Inr v \<Rightarrow> if truthy v then Inr v else b)"

definition ACCESS_ACTION_MAP :: "(string \<times> string) list" where
  "ACCESS_ACTION_MAP =
     [(''access.logs.add'', ''access_granted''),
      (''access.logs.denied'', ''access_denied''),
      (''access.door.unlock'', ''door_unlocked''),
      (''access.door.open'', ''door_opened''),
      (''access.door.close'', ''door_closed''),
      (''access.door.held_open'', ''door_held_open''),
      (''access.remote_view.change'', ''remote_view_change'')]"

text \<open>
  \<open>ACCESS_ACTION_MAP.get(event_type, event_type.replace(".", "_"))\<close>: the default is
  computed before the lookup, and only a string has \<open>replace\<close>.
\<close>

fun access_action :: "pyval \<Rightarrow> error + pyval" where
  "access_action (PStr s) =
     Inr (PStr (case map_of ACCESS_ACTION_MAP s of None \<Rightarrow> replace_dots s | Some a \<Rightarrow> a))"
| "access_action _ = Inl AttributeError"

definition normalize_access :: "instant \<Rightarrow> pyval \<Rightarrow> error + event" where
  "normalize_access now payload =
     sbind (or_else (py_get payload ''event'')
             (or_else (py_get payload ''type'') (Inr (PStr ''unknown'')))) (\<lambda>etype.
     sbind (py_get_default payload ''data'' payload) (\<lambda>data.
     sbind (or_else (py_get data ''timestamp'') (py_get payload ''timestamp'')) (\<lambda>ts.
     let occurred = (if truthy ts then ts_to_dt now ts else now) in
     sbind (py_get_default data ''actor'' (PDict [])) (\<lambda>actor.
     sbind (or_else (py_get actor ''id'')
             (or_else (py_get data ''actor_id'') (py_get data ''user_id''))) (\<lambda>uid.
     sbind (py_get_default actor ''first_name'' (PStr [])) (\<lambda>first.
     sbind (py_get_default actor ''last_name'' (PStr [])) (\<lambda>last.
     sbind (or_else (py_get actor ''display_name'')
             (Inr (py_or (PStr (strip (py_str first @ '' '' @ py_str last))) PNone))) (\<lambda>uname.
     sbind (py_get_default data ''door'' (PDict [])) (\<lambda>door.
     sbind (or_else (py_get door ''name'')
             (or_else (py_get data ''door_name'') (py_get data ''location''))) (\<lambda>loc.
     sbind (access_action etype) (\<lambda>act.
     sbind (or_else (py_get data ''id'')
             (Inr (PStr (dedup_id ''acc'' [uid, etype, PInt (epoch_seconds occurred)])))) (\<lambda>eid.
     Inr \<lparr> event_id = py_str eid,
           source = ''access'',
           event_type = ''physical_access'',
           raw_event_type = etype,
           user_id = uid,
           user_name = uname,
           location = loc,
           action = act,
           metadata_json = payload,
           occurred_at = occurred \<rparr>))))))))))))"

definition PROTECT_ACTION_MAP :: "(string \<times> string) list" where
  "PROTECT_ACTION_MAP =
     [(''ring'', ''doorbell_ring''),
      (''motion'', ''motion_detected''),
      (''smartDetectZone'', ''smart_detect''),
      (''smartDetectLine'', ''smart_detect''),
      (''recording'', ''recording_event''),
      (''camera'', ''camera_event'')]"

text \<open>
  \<open>PROTECT_ACTION_MAP.get(event_type, event_type)\<close>: a list or a dictionary is not
  hashable and the lookup raises \<open>TypeError\<close>; a value that is not a string is no key
  of the table and comes back as it is.
\<close>

fun protect_action :: "pyval \<Rightarrow> error + pyval" where
  "protect_action (PStr s) =
     Inr (PStr (case map_of PROTECT_ACTION_MAP s of None \<Rightarrow> s | Some a \<Rightarrow> a))"
| "protect_action (PList xs) = Inl TypeError"
| "protect_action (PDict kvs) = Inl TypeError"
| "protect_action v = Inr v"

text \<open>
  \<open>",".join(x)\<close>: \<open>x\<close> is iterated, and every item must be a string. A string gives
  its characters, a dictionary its keys; a number or a boolean is not iterable.
\<close>

fun str_items :: "pyval list \<Rightarrow> string list option" where
  "str_items [] = Some []"
| "str_items (PStr s # xs) = (case str_items xs of None \<Rightarrow> None | Some ys \<Rightarrow> Some (s # ys))"
| "str_items (_ # xs) = None"

fun comma_join :: "pyval \<Rightarrow> error + string" where
  "comma_join (PStr s) = Inr (join '','' (map (\<lambda>c. [c]) s))"
| "comma_join (PList xs) =
     (case str_items xs of None \<Rightarrow> Inl TypeError | Some ys \<Rightarrow> Inr (join '','' ys))"
| "comma_join (PDict kvs) = Inr (join '','' (map fst kvs))"
| "comma_join _ = Inl TypeError"

definition normalize_protect :: "instant \<Rightarrow> pyval \<Rightarrow> error + event" where
  "normalize_protect now payload =
     sbind (or_else (py_get payload ''type'')
             (or_else (py_get payload ''event'') (Inr (PStr ''unknown'')))) (\<lambda>etype.
     sbind (py_get_default payload ''data'' payload) (\<lambda>data.
     sbind (or_else (py_get data ''start'')
             (or_else (py_get data ''timestamp'') (py_get payload ''timestamp''))) (\<lambda>ts.
     let occurred = (if truthy ts then ts_to_dt now ts else now) in
     sbind (or_else (py_get data ''camera'') (py_get data ''cameraId'')) (\<lambda>camera_id.
     sbind (or_else (py_get data ''cameraName'')
             (or_else (py_get data ''camera_name'') (Inr camera_id))) (\<lambda>camera_name.
     sbind (py_get_default data ''smartDetectTypes'' (PList [])) (\<lambda>smart_types.
     sbind (protect_action etype) (\<lambda>act0.
     sbind (if truthy smart_types
            then sbind (comma_join smart_types) (\<lambda>j. Inr (PStr (''smart_detect:'' @ j)))
            else Inr act0) (\<lambda>act.
     sbind (or_else (py_get data ''id'')
             (Inr (PStr (dedup_id ''prot'' [camera_id, etype, PInt (epoch_seconds occurred)])))) (\<lambda>eid.
     sbind (or_else (Inr camera_name) (py_get data ''zone'')) (\<lambda>loc.
     Inr \<lparr> event_id = py_str eid,
           source = ''protect'',
           event_type = ''video_event'',
           raw_event_type = etype,
           user_id = camera_id,
           user_name = camera_name,
           location = loc,
           action = act,
           metadata_json = payload,
           occurred_at = occurred \<rparr>))))))))))"

section \<open>Notifications\<close>

text \<open>
  The single row of \<open>activity_webhook_config\<close>. Every column is nullable: a Boolean
  column reads as \<open>None\<close>, \<open>True\<close> or \<open>False\<close>, a text column as \<open>None\<close> or
  a string.
\<close>

record webhook_config =
  enabled :: "bool option"
  webhook_url :: "string option"
  webhook_type :: "string option"
  event_access_granted :: "bool option"
  event_access_denied :: "bool option"
  event_door_held_open :: "bool option"
  event_person_detected :: "bool option"
  event_vehicle_detected :: "bool option"
  event_doorbell_ring :: "bool option"
  event_motion :: "bool option"

text \<open>Truth value of a nullable Boolean and of a nullable string.\<close>

definition on :: "bool option \<Rightarrow> bool" where
  "on b = (b = Some True)"

definition str_truthy :: "string option \<Rightarrow> bool" where
  "str_truthy s = (case s of None \<Rightarrow> False | Some t \<Rightarrow> t \<noteq> [])"

text \<open>
  \<open>needle in x\<close> for a string \<open>needle\<close>: part of a string, item of a list, key of a
  dictionary; on any other value it raises \<open>TypeError\<close>.
\<close>

fun py_in :: "string \<Rightarrow> pyval \<Rightarrow> error + bool" where
  "py_in needle (PStr s) = Inr (contains needle s)"
| "py_in needle (PList xs) = Inr (PStr needle \<in> set xs)"
| "py_in needle (PDict kvs) = Inr (needle \<in> set (map fst kvs))"
| "py_in needle _ = Inl TypeError"

definition should_notify :: "event \<Rightarrow> webhook_config option \<Rightarrow> error + bool" where
  "should_notify ev config =
     (case config of
        None \<Rightarrow> Inr False
      | Some c \<Rightarrow>
          if \<not> on (enabled c) \<or> \<not> str_truthy (webhook_url c) then Inr False
          else if source ev = ''access'' \<and> action ev = PStr ''access_granted''
                  \<and> on (event_access_granted c) then Inr True
          else if source ev = ''access'' \<and> action ev = PStr ''access_denied''
                  \<and> on (event_access_denied c) then Inr True
          else if source ev = ''access'' \<and> action ev = PStr ''door_held_open''
                  \<and> on (event_door_held_open c) then Inr True
          else if source ev = ''protect'' then
            (if action ev = PStr ''doorbell_ring'' \<and> on (event_doorbell_ring c) then Inr True
             else if action ev = PStr ''motion_detected'' \<and> on (event_motion c) then Inr True
             else sbind (py_in ''person'' (action ev)) (\<lambda>p.
                  if p \<and> on (event_person_detected c) then Inr True
                  else sbind (py_in ''vehicle'' (action ev)) (\<lambda>v.
                       if v \<and> on (event_vehicle_detected c) then Inr True else Inr False)))
          else Inr False)"

text \<open>
  The body of the outbound request. Each formatter draws on the same fields of the
  event; the wording of the Slack and Discord messages (emoji, title case) is a function
  of these fields and is not spelled out. \<open>ACTION_EMOJI.get(action, ...)\<close> needs a
  hashable action and \<open>action.replace\<close> a string.
\<close>

datatype payload =
    SlackPayload string pyval pyval pyval string instant
  | DiscordPayload int pyval pyval pyval string instant
  | GenericPayload string string pyval pyval pyval pyval instant

definition who :: "event \<Rightarrow> pyval" where
  "who ev = py_or (user_name ev) (py_or (user_id ev) (PStr ''Unknown''))"

fun title_action :: "pyval \<Rightarrow> error + pyval" where
  "title_action (PStr s) = Inr (PStr s)"
| "title_action (PList xs) = Inl TypeError"
| "title_action (PDict kvs) = Inl TypeError"
| "title_action _ = Inl AttributeError"

definition format_slack :: "event \<Rightarrow> error + payload" where
  "format_slack ev =
     sbind (title_action (action ev)) (\<lambda>a.
       Inr (SlackPayload
              (if source ev = ''access'' then ''#238636''
               else if source ev = ''protect'' then ''#d29922'' else ''#8b949e'')
              a (who ev) (py_or (location ev) (PStr ''Unknown'')) (source ev) (occurred_at ev)))"

definition format_discord :: "event \<Rightarrow> error + payload" where
  "format_discord ev =
     sbind (title_action (action ev)) (\<lambda>a.
       Inr (DiscordPayload
              (if source ev = ''access'' then 0x238636
               else if source ev = ''protect'' then 0xd29922 else 0x8b949e)
              a (who ev) (py_or (location ev) (PStr ''Unknown'')) (source ev) (occurred_at ev)))"

definition format_generic :: "event \<Rightarrow> payload" where
  "format_generic ev =
     GenericPayload (event_id ev) (source ev) (action ev) (user_name ev) (user_id ev)
       (location ev) (occurred_at ev)"

text \<open>
  What the destination does with the one request: it answers with a status, and the
  body of the answer can be read or reading it fails; or the request fails (timeout
  after 10 seconds, connection error, any exception of the HTTP client).
\<close>

datatype http_outcome = Responded int "string option" | Failed

text \<open>What a function does besides returning: requests sent and log records written.\<close>

datatype effect = PostAttempt string payload | LogInfo | LogDebug | LogWarning int | LogError

type_synonym network = "string \<Rightarrow> payload \<Rightarrow> http_outcome"

definition send_notification ::
    "network \<Rightarrow> event \<Rightarrow> webhook_config option \<Rightarrow> (error + bool) \<times> effect list" where
  "send_notification net ev config =
     (case should_notify ev config of
        Inl e \<Rightarrow> (Inl e, [])
      | Inr False \<Rightarrow> (Inr False, [])
      | Inr True \<Rightarrow>
          (case config of
             None \<Rightarrow> (Inr False, [])
           | Some c \<Rightarrow>
               let wtype = lower (case webhook_type c of None \<Rightarrow> ''generic''
                                  | Some t \<Rightarrow> if t = [] then ''generic'' else t);
                   url = (case webhook_url c of None \<Rightarrow> [] | Some u \<Rightarrow> u)
               in case (if wtype = ''slack'' then format_slack ev
                        else if wtype = ''discord'' then format_discord ev
                        else Inr (format_generic ev)) of
                    Inl e \<Rightarrow> (Inl e, [])
                  | Inr body \<Rightarrow>
                      (case net url body of
                         Responded status text \<Rightarrow>
                           if status < 300 then (Inr True, [PostAttempt url body, LogDebug])
                           else (case text of
                                   Some t \<Rightarrow> (Inr False, [PostAttempt url body, LogWarning status])
                                 | None \<Rightarrow> (Inr False, [PostAttempt url body, LogError]))
                       | Failed \<Rightarrow> (Inr False, [PostAttempt url body, LogError]))))"

section \<open>The event store\<close>

text \<open>
  A row of \<open>activity_events\<close>: the normalized event with the key the table assigns and
  the time of insertion. The database holds the rows in insertion order, the
  configuration row if there is one, and the next key. A commit of a row whose
  \<open>event_id\<close> is new succeeds.
\<close>

record row =
  row_id :: nat
  row_event :: event
  received_at :: instant

record db =
  events :: "row list"
  config :: "webhook_config option"
  next_id :: nat

text \<open>
  \<open>_store_event\<close>. \<open>scalar_one_or_none\<close> gives the row with this \<open>event_id\<close>, nothing
  when there is none, and raises when there are several. The result of
  \<open>send_notification\<close> is dropped, an exception it raises is not caught.
\<close>

definition store_event ::
    "network \<Rightarrow> instant \<Rightarrow> event \<Rightarrow> db \<Rightarrow> (error + unit) \<times> db \<times> effect list" where
  "store_event net received ev d =
     (case filter (\<lambda>r. event_id (row_event r) = event_id ev) (events d) of
        [] \<Rightarrow>
          let d' = d \<lparr> events := events d @
                           [\<lparr> row_id = next_id d, row_event = ev, received_at = received \<rparr>],
                       next_id := Suc (next_id d) \<rparr>
          in (case config d' of
                None \<Rightarrow> (Inr (), d', [LogInfo])
              | Some c \<Rightarrow>
                  (case send_notification net ev (Some c) of
                     (Inl e, fx) \<Rightarrow> (Inl e, d', LogInfo # fx)
                   | (Inr b, fx) \<Rightarrow> (Inr (), d', LogInfo # fx)))
      | [r] \<Rightarrow> (Inr (), d, [])
      | r # r' # rs \<Rightarrow> (Inl MultipleResultsFound, d, []))"

section \<open>Webhook receivers\<close>

text \<open>
  The surroundings of a request: the clock when the item at a position of the batch is
  normalized, the database clock when its row is inserted, and the network. The body of
  the request has passed the signature check and has been parsed.
\<close>

record env =
  now_at :: "nat \<Rightarrow> instant"
  db_now_at :: "nat \<Rightarrow> instant"
  net :: network

record response =
  received :: nat
  stored :: nat

text \<open>
  The loop over the items of the batch, with the position of the item and the counter
  \<open>stored\<close>. The normalizer's result is a dictionary with ten keys, so
  \<open>if normalized\<close> holds whenever the normalizer returns.
\<close>

fun ingest ::
    "(instant \<Rightarrow> pyval \<Rightarrow> error + event) \<Rightarrow> env \<Rightarrow> nat \<Rightarrow> pyval list \<Rightarrow> nat \<Rightarrow> db
       \<Rightarrow> (error + nat) \<times> db \<times> effect list" where
  "ingest normalizer e i [] count d = (Inr count, d, [])"
| "ingest normalizer e i (raw # raws) count d =
     (case normalizer (now_at e i) raw of
        Inl err \<Rightarrow> (Inl err, d, [])
      | Inr normalized \<Rightarrow>
          (case store_event (net e) (db_now_at e i) normalized d of
             (Inl err, d', fx) \<Rightarrow> (Inl err, d', fx)
           | (Inr u, d', fx) \<Rightarrow>
               (case ingest normalizer e (Suc i) raws (Suc count) d' of
                  (r, d'', fx') \<Rightarrow> (r, d'', fx @ fx'))))"

definition batch_items :: "pyval \<Rightarrow> pyval list" where
  "batch_items payload = (case payload of PList xs \<Rightarrow> xs | _ \<Rightarrow> [payload])"

definition webhook ::
    "(instant \<Rightarrow> pyval \<Rightarrow> error + event) \<Rightarrow> env \<Rightarrow> pyval \<Rightarrow> db
       \<Rightarrow> (error + response) \<times> db \<times> effect list" where
  "webhook normalizer e payload d =
     (case ingest normalizer e 0 (batch_items payload) 0 d of
        (Inl err, d', fx) \<Rightarrow> (Inl err, d', fx)
      | (Inr count, d', fx) \<Rightarrow>
          (Inr \<lparr> received = length (batch_items payload), stored = count \<rparr>, d', fx))"

definition webhook_access :: "env \<Rightarrow> pyval \<Rightarrow> db \<Rightarrow> (error + response) \<times> db \<times> effect list" where
  "webhook_access = webhook normalize_access"

definition webhook_protect :: "env \<Rightarrow> pyval \<Rightarrow> db \<Rightarrow> (error + response) \<times> db \<times> effect list" where
  "webhook_protect = webhook normalize_protect"

section \<open>Correlation\<close>

text \<open>
  The rows of the self-join. \<open>occurred_at\<close> values are compared as instants and
  \<open>datetime(t, '+w seconds')\<close> is \<open>t\<close> plus \<open>w\<close> seconds; the column
  \<open>seconds_apart\<close>, which the database computes in floating point, is left out.
\<close>

record correlation =
  anchor_id :: nat
  anchor_source :: string
  anchor_user :: pyval
  anchor_action :: pyval
  anchor_location :: pyval
  anchor_time :: instant
  related_id :: nat
  related_source :: string
  related_user :: pyval
  related_action :: pyval
  related_location :: pyval
  related_time :: instant

definition correlate_row :: "row \<Rightarrow> row \<Rightarrow> correlation" where
  "correlate_row e1 e2 =
     \<lparr> anchor_id = row_id e1,
       anchor_source = source (row_event e1),
       anchor_user = user_name (row_event e1),
       anchor_action = action (row_event e1),
       anchor_location = location (row_event e1),
       anchor_time = occurred_at (row_event e1),
       related_id = row_id e2,
       related_source = source (row_event e2),
       related_user = user_name (row_event e2),
       related_action = action (row_event e2),
       related_location = location (row_event e2),
       related_time = occurred_at (row_event e2) \<rparr>"

text \<open>The \<open>ON\<close> condition of the join and the \<open>WHERE\<close> condition on the anchor.\<close>

definition join_on :: "int \<Rightarrow> row \<Rightarrow> row \<Rightarrow> bool" where
  "join_on window e1 e2 =
     (row_id e2 \<noteq> row_id e1
      \<and> source (row_event e2) \<noteq> source (row_event e1)
      \<and> occurred_at (row_event e1) \<le> occurred_at (row_event e2)
      \<and> occurred_at (row_event e2) \<le> occurred_at (row_event e1) + window * 1000000)"

definition correlate_join :: "int \<Rightarrow> instant \<Rightarrow> row list \<Rightarrow> correlation list" where
  "correlate_join window since_dt rows =
     [correlate_row e1 e2. e1 \<leftarrow> rows, e2 \<leftarrow> rows,
        join_on window e1 e2 \<and> since_dt \<le> occurred_at (row_event e1)]"

text \<open>
  The query parameter \<open>since\<close>: absent or empty, an ISO-8601 text that
  \<open>datetime.fromisoformat\<close> reads as an instant, or a text it rejects.
\<close>

datatype since_param = NoSince | Since instant | BadSince

text \<open>
  \<open>get_correlations\<close>. The framework answers 422 before the function runs when
  \<open>window_seconds\<close> exceeds 300 or \<open>limit\<close> exceeds 200. Rows come newest anchor
  first; a negative \<open>LIMIT\<close> is no limit.
\<close>

definition get_correlations ::
    "instant \<Rightarrow> int \<Rightarrow> since_param \<Rightarrow> int \<Rightarrow> db \<Rightarrow> error + int \<times> correlation list" where
  "get_correlations now window_seconds since limit d =
     (if 300 < window_seconds \<or> 200 < limit then Inl ValidationError
      else case since of
          BadSince \<Rightarrow> Inl ValueError
        | _ \<Rightarrow>
          let since_dt = (case since of Since t \<Rightarrow> t | _ \<Rightarrow> now - 24 * 3600 * 1000000);
              rows = sort_key (\<lambda>c. - anchor_time c)
                       (correlate_join window_seconds since_dt (events d))
          in Inr (window_seconds, if limit < 0 then rows else take (nat limit) rows))"

section \<open>Notions used in the properties\<close>

text \<open>One field of a normalizer's result, when it returns.\<close>

definition result_action :: "error + event \<Rightarrow> error + pyval" where
  "result_action r = (case r of Inl e \<Rightarrow> Inl e | Inr ev \<Rightarrow> Inr (action ev))"

definition result_occurred_at :: "error + event \<Rightarrow> error + instant" where
  "result_occurred_at r = (case r of Inl e \<Rightarrow> Inl e | Inr ev \<Rightarrow> Inr (occurred_at ev))"

definition result_event_id :: "error + event \<Rightarrow> error + string" where
  "result_event_id r = (case r of Inl e \<Rightarrow> Inl e | Inr ev \<Rightarrow> Inr (event_id ev))"

text \<open>The unique constraint on \<open>event_id\<close>, and the rows with a given \<open>event_id\<close>.\<close>

definition unique_ids :: "db \<Rightarrow> bool" where
  "unique_ids d = distinct (map (\<lambda>r. event_id (row_event r)) (events d))"

definition rows_with_id :: "string \<Rightarrow> db \<Rightarrow> row list" where
  "rows_with_id i d = filter (\<lambda>r. event_id (row_event r) = i) (events d)"

definition empty_db :: db where
  "empty_db = \<lparr> events = [], config = None, next_id = 0 \<rparr>"

text \<open>
  The seven switches of the configuration, the value of a switch, and the events a
  switch is registered for, as the branches of \<open>_should_notify\<close> pair them.
\<close>

datatype switch =
    AccessGranted | AccessDenied | DoorHeldOpen
  | PersonDetected | VehicleDetected | DoorbellRing | Motion

definition all_switches :: "switch list" where
  "all_switches =
     [AccessGranted, AccessDenied, DoorHeldOpen, PersonDetected, VehicleDetected,
      DoorbellRing, Motion]"

fun switch_on :: "webhook_config \<Rightarrow> switch \<Rightarrow> bool" where
  "switch_on c AccessGranted = on (event_access_granted c)"
| "switch_on c AccessDenied = on (event_access_denied c)"
| "switch_on c DoorHeldOpen = on (event_door_held_open c)"
| "switch_on c PersonDetected = on (event_person_detected c)"
| "switch_on c VehicleDetected = on (event_vehicle_detected c)"
| "switch_on c DoorbellRing = on (event_doorbell_ring c)"
| "switch_on c Motion = on (event_motion c)"

fun registered :: "switch \<Rightarrow> string \<Rightarrow> string \<Rightarrow> bool" where
  "registered AccessGranted src act = (src = ''access'' \<and> act = ''access_granted'')"
| "registered AccessDenied src act = (src = ''access'' \<and> act = ''access_denied'')"
| "registered DoorHeldOpen src act = (src = ''access'' \<and> act = ''door_held_open'')"
| "registered DoorbellRing src act = (src = ''protect'' \<and> act = ''doorbell_ring'')"
| "registered Motion src act = (src = ''protect'' \<and> act = ''motion_detected'')"
| "registered PersonDetected src act = (src = ''protect'' \<and> contains ''person'' act)"
| "registered VehicleDetected src act = (src = ''protect'' \<and> contains ''vehicle'' act)"

text \<open>
  The rule of the specification: the policy is enabled, a destination is configured,
  and a switch registered for the event's source and action is on.
\<close>

definition rule_fires_spec :: "webhook_config \<Rightarrow> string \<Rightarrow> string \<Rightarrow> bool" where
  "rule_fires_spec c src act =
     (on (enabled c) \<and> str_truthy (webhook_url c)
      \<and> list_ex (\<lambda>sw. registered sw src act \<and> switch_on c sw) all_switches)"

text \<open>Flipping one switch of the configuration, the others unchanged.\<close>

fun flip :: "switch \<Rightarrow> webhook_config \<Rightarrow> webhook_config" where
  "flip AccessGranted c = c \<lparr> event_access_granted := Some (\<not> on (event_access_granted c)) \<rparr>"
| "flip AccessDenied c = c \<lparr> event_access_denied := Some (\<not> on (event_access_denied c)) \<rparr>"
| "flip DoorHeldOpen c = c \<lparr> event_door_held_open := Some (\<not> on (event_door_held_open c)) \<rparr>"
| "flip PersonDetected c = c \<lparr> event_person_detected := Some (\<not> on (event_person_detected c)) \<rparr>"
| "flip VehicleDetected c = c \<lparr> event_vehicle_detected := Some (\<not> on (event_vehicle_detected c)) \<rparr>"
| "flip DoorbellRing c = c \<lparr> event_doorbell_ring := Some (\<not> on (event_doorbell_ring c)) \<rparr>"
| "flip Motion c = c \<lparr> event_motion := Some (\<not> on (event_motion c)) \<rparr>"

text \<open>Another switch than \<open>sw\<close> that is registered for the event and on.\<close>

definition other_switch_on :: "webhook_config \<Rightarrow> switch \<Rightarrow> string \<Rightarrow> string \<Rightarrow> bool" where
  "other_switch_on c sw src act =
     list_ex (\<lambda>sw'. sw' \<noteq> sw \<and> registered sw' src act \<and> switch_on c sw') all_switches"

text \<open>Sample data: an access event that carries its own id, and quiet surroundings.\<close>

definition sample_access_payload :: pyval where
  "sample_access_payload =
     PDict [(''event'', PStr ''access.logs.add''), (''data'', PDict [(''id'', PStr ''evt-1'')])]"

definition sample_env :: env where
  "sample_env = \<lparr> now_at = (\<lambda>i. 1000), db_now_at = (\<lambda>i. 2000), net = (\<lambda>u b. Failed) \<rparr>"

text \<open>The requests among the effects.\<close>

fun is_post :: "effect \<Rightarrow> bool" where
  "is_post (PostAttempt url body) = True"
| "is_post _ = False"

section \<open>Properties of the normalizers\<close>

lemma sbind_Inr: "sbind m f = Inr y \<longleftrightarrow> (\<exists>x. m = Inr x \<and> f x = Inr y)"
  by (cases m) (simp_all add: sbind_def)

lemmas normalize_eval =
  normalize_access_def normalize_protect_def sbind_def or_else_def py_get_def py_or_def
  ts_to_dt_def MIN_TS_MS_def MAX_TS_MS_def ACCESS_ACTION_MAP_def PROTECT_ACTION_MAP_def
  replace_dots_def int_of_str_def strip_def is_space_def parse_nat_def is_digit_def
  digit_val_def Let_def result_action_def result_occurred_at_def result_event_id_def

lemma normalize_access_action:
  assumes "normalize_access now p = Inr ev"
  shows "access_action (raw_event_type ev) = Inr (action ev)"
  using assms unfolding normalize_access_def Let_def sbind_Inr by clarsimp

lemma normalize_protect_smart:
  assumes "normalize_protect now p = Inr ev"
    and "py_get_default p ''data'' p = Inr data"
    and "py_get_default data ''smartDetectTypes'' (PList []) = Inr st"
    and "truthy st"
  shows "\<exists>j. comma_join st = Inr j \<and> action ev = PStr (''smart_detect:'' @ j)"
  using assms unfolding normalize_protect_def Let_def sbind_Inr by (clarsimp simp: sbind_Inr)

lemma normalize_protect_plain:
  assumes "normalize_protect now p = Inr ev"
    and "py_get_default p ''data'' p = Inr data"
    and "py_get_default data ''smartDetectTypes'' (PList []) = Inr st"
    and "\<not> truthy st"
  shows "protect_action (raw_event_type ev) = Inr (action ev)"
  using assms unfolding normalize_protect_def Let_def sbind_Inr by clarsimp

lemma replace_dots_id: "CHR ''.'' \<notin> set t \<Longrightarrow> replace_dots t = t"
  by (induction t) (auto simp: replace_dots_def)

text \<open>
  Claim C7 says that a normalizer, given any JSON object, returns a fully populated
  canonical event or an explicit rejection and never raises. The code raises: an event
  type that is not a string has no \<open>replace\<close>, a \<open>data\<close> that is not an object has
  no \<open>get\<close>, and a list of detection types with an item that is not a string cannot be
  joined. The video normalizer also returns a record whose action is the number 5 when
  the event type is 5.
\<close>

theorem normalize_raises_on_unexpected_values:
  "normalize_access now (PDict [(''event'', PInt 5)]) = Inl AttributeError
   \<and> normalize_access now (PDict [(''event'', PStr ''access.logs.add''), (''data'', PStr ''x'')])
       = Inl AttributeError
   \<and> normalize_protect now
         (PDict [(''type'', PStr ''smartDetectZone''), (''smartDetectTypes'', PList [PInt 1])])
       = Inl TypeError
   \<and> result_action (normalize_protect now (PDict [(''type'', PInt 5)])) = Inr (PInt 5)"
  by (simp add: normalize_eval)

text \<open>
  Claim C4 says that an ISO-8601 string is accepted as a timestamp and mapped to its
  instant. Both normalizers pass every timestamp to \<open>_ts_to_dt\<close>, whose \<open>int\<close> rejects
  the string, so the event gets the time of ingestion; \<open>_iso_to_dt\<close> is never called.
\<close>

theorem iso_timestamp_falls_back_to_now:
  "result_occurred_at (normalize_access now
       (PDict [(''event'', PStr ''access.logs.add''),
               (''timestamp'', PStr ''2024-01-01T00:00:00Z'')])) = Inr now
   \<and> result_occurred_at (normalize_protect now
       (PDict [(''type'', PStr ''motion''),
               (''start'', PStr ''2024-01-01T00:00:00Z'')])) = Inr now"
  by (simp add: normalize_eval)

text \<open>An epoch-millisecond integer in the range of a datetime is mapped to its instant.\<close>

lemma ts_to_dt_epoch_ms:
  "MIN_TS_MS \<le> ms \<Longrightarrow> ms \<le> MAX_TS_MS \<Longrightarrow> ts_to_dt now (PInt ms) = ms * 1000"
  by (simp add: ts_to_dt_def)

lemma epoch_ms_timestamp_is_kept:
  "result_occurred_at (normalize_access now
       (PDict [(''event'', PStr ''access.logs.add''),
               (''timestamp'', PInt 1700000000000)])) = Inr 1700000000000000"
  by (simp add: normalize_eval)

text \<open>
  Claim C8 says that an event type outside the lookup table becomes the action with
  its dots replaced by underscores, in both normalizers. It fails as stated: the video
  normalizer, given a non-empty list of detection types, makes the action from that
  list whatever the event type is.
\<close>

theorem unmapped_type_smart_detect_counterexample:
  "result_action (normalize_protect 0
       (PDict [(''type'', PStr ''foo''), (''smartDetectTypes'', PList [PStr ''person''])]))
     = Inr (PStr ''smart_detect:person'')
   \<and> map_of PROTECT_ACTION_MAP ''foo'' = None
   \<and> replace_dots ''foo'' = ''foo''"
  by (simp add: normalize_eval)

text \<open>
  Claim C8 as amended: for an event type string outside the table, the access
  normalizer's action is that string with dots replaced by underscores. The video
  normalizer's action is \<open>smart_detect:\<close> followed by the comma-joined detection
  types when that list is truthy; otherwise, for an event type string outside the table
  that has no dot, it is that string.
\<close>

theorem unmapped_type_action:
  "(normalize_access now p = Inr ev \<and> raw_event_type ev = PStr t
      \<and> map_of ACCESS_ACTION_MAP t = None
      \<longrightarrow> action ev = PStr (replace_dots t))
   \<and> (normalize_protect now p' = Inr ev' \<and> raw_event_type ev' = PStr t'
      \<and> map_of PROTECT_ACTION_MAP t' = None
      \<and> py_get_default p' ''data'' p' = Inr data
      \<and> py_get_default data ''smartDetectTypes'' (PList []) = Inr st
      \<longrightarrow> (if truthy st
           then \<exists>j. comma_join st = Inr j \<and> action ev' = PStr (''smart_detect:'' @ j)
           else CHR ''.'' \<notin> set t' \<longrightarrow> action ev' = PStr (replace_dots t')))"
proof (intro conjI impI)
  assume a: "normalize_access now p = Inr ev \<and> raw_event_type ev = PStr t
      \<and> map_of ACCESS_ACTION_MAP t = None"
  then have "access_action (PStr t) = Inr (action ev)"
    using normalize_access_action [of now p ev] by simp
  with a show "action ev = PStr (replace_dots t)" by simp
next
  assume b: "normalize_protect now p' = Inr ev' \<and> raw_event_type ev' = PStr t'
      \<and> map_of PROTECT_ACTION_MAP t' = None
      \<and> py_get_default p' ''data'' p' = Inr data
      \<and> py_get_default data ''smartDetectTypes'' (PList []) = Inr st"
  show "if truthy st
        then \<exists>j. comma_join st = Inr j \<and> action ev' = PStr (''smart_detect:'' @ j)
        else CHR ''.'' \<notin> set t' \<longrightarrow> action ev' = PStr (replace_dots t')"
  proof (cases "truthy st")
    case True
    with b normalize_protect_smart [of now p' ev' data st] show ?thesis by simp
  next
    case False
    have "protect_action (raw_event_type ev') = Inr (action ev')"
      by (rule normalize_protect_plain [of now p' ev' data st]) (use b False in simp_all)
    moreover from b have "raw_event_type ev' = PStr t'" and "map_of PROTECT_ACTION_MAP t' = None"
      by simp_all
    ultimately have "Inr (PStr t') = (Inr (action ev') :: error + pyval)" by simp
    then have "action ev' = PStr t'" by simp
    with False show ?thesis by (simp add: replace_dots_id)
  qed
qed

theorem unmapped_type_action_witness:
  "result_action (normalize_access 0 (PDict [(''event'', PStr ''visitor.badge.scan'')]))
     = Inr (PStr ''visitor_badge_scan'')
   \<and> map_of ACCESS_ACTION_MAP ''visitor.badge.scan'' = None
   \<and> result_action (normalize_protect 0
        (PDict [(''type'', PStr ''packageDetect''),
                (''smartDetectTypes'', PList [PStr ''package''])]))
     = Inr (PStr ''smart_detect:package'')
   \<and> map_of PROTECT_ACTION_MAP ''packageDetect'' = None"
  using unmapped_type_action
    [where now = 0 and p = "PDict [(''event'', PStr ''visitor.badge.scan'')]"
       and t = "''visitor.badge.scan''"
       and p' = "PDict [(''type'', PStr ''packageDetect''),
                        (''smartDetectTypes'', PList [PStr ''package''])]"
       and t' = "''packageDetect''"]
  by (simp add: normalize_eval)

section \<open>Properties of the store and of the receivers\<close>






lemmas store_eval =
  webhook_access_def webhook_protect_def webhook_def batch_items_def store_event_def
  empty_db_def rows_with_id_def unique_ids_def



lemma ingest_count:
  "ingest normalizer e i raws c d = (Inr n, d', fx) \<Longrightarrow> n = c + length raws"
proof (induction raws arbitrary: i c d fx)
  case Nil
  then show ?case by simp
next
  case (Cons raw raws)
  from Cons.prems obtain d1 fx2 where
    "ingest normalizer e (Suc i) raws (Suc c) d1 = (Inr n, d', fx2)"
    by (auto split: sum.splits prod.splits)
  from Cons.IH [OF this] show ?case by simp
qed

text \<open>
  Claim C3 says that \<open>stored\<close> counts the items newly persisted, duplicates left out.
  The receiver adds one to \<open>stored\<close> after every call of \<open>_store_event\<close>, which
  returns nothing, so in every answer \<open>stored\<close> equals \<open>received\<close>; resending a
  payload is answered with \<open>stored = 1\<close> although the table does not change.
\<close>

theorem webhook_stored_is_received:
  "webhook normalizer e payload d = (Inr resp, d', fx) \<Longrightarrow> stored resp = received resp"
  by (auto simp: webhook_def split: prod.splits sum.splits dest: ingest_count)

theorem webhook_resend_reports_stored:
  "webhook_access sample_env sample_access_payload
     (fst (snd (webhook_access sample_env sample_access_payload empty_db)))
   = (Inr \<lparr> received = 1, stored = 1 \<rparr>,
      fst (snd (webhook_access sample_env sample_access_payload empty_db)),
      [])
   \<and> length (events (fst (snd (webhook_access sample_env sample_access_payload empty_db)))) = 1"
  using webhook_stored_is_received [of normalize_access sample_env sample_access_payload]
  by (simp add: store_eval normalize_eval sample_access_payload_def sample_env_def)

end
